theory Spec2Isabelle
  imports Main "HOL-Library.Sublist"
begin

section \<open>Python values, exceptions and string primitives\<close>

text \<open>
  The conversation engine is the class \<open>OpenAIAgent\<close> of \<open>openai_agent/agent.py\<close>.
  Strings are lists of characters, each character standing for one code point below 256.
  Every exception the modelled code can raise is a value of \<open>error\<close>; a method returns
  its outcome together with the agent as the call left it, since a Python exception does
  not undo the assignments made before it.
\<close>

datatype error =
    ValueError
  | KeyError
  | IndexError
  | TypeError
  | AttributeError
  | ProviderError
  | UnmodelledFormatField

text \<open>
  Values stored in the completion parameters: \<open>PyFloat m e\<close> is the finite float
  \<open>m * 2 ^ e\<close>; no operation of the engine computes with it.
\<close>

datatype pyval = PyNone | PyInt int | PyFloat int int | PyStr string

definition NL :: char where
  "NL = CHR 0x0A"

text \<open>The code points below 256 for which \<open>str.isspace\<close> holds; \<open>str.strip()\<close> removes them.\<close>

definition whitespace :: "char list" where
  "whitespace = [CHR 0x09, CHR 0x0A, CHR 0x0B, CHR 0x0C, CHR 0x0D, CHR 0x1C, CHR 0x1D,
                 CHR 0x1E, CHR 0x1F, CHR 0x20, CHR 0x85, CHR 0xA0]"

definition isspace :: "char \<Rightarrow> bool" where
  "isspace c = List.member whitespace c"

definition strip :: "string \<Rightarrow> string" where
  "strip s = rev (dropWhile isspace (rev (dropWhile isspace s)))"

text \<open>\<open>re.sub("(\\n)*$", "", s)\<close>: the run of newlines that ends the string is removed.\<close>

definition sub_trailing_newlines :: "string \<Rightarrow> string" where
  "sub_trailing_newlines s = rev (dropWhile (\<lambda>c. c = NL) (rev s))"

text \<open>\<open>str.upper()\<close> on ASCII letters (engine identifiers are ASCII).\<close>

definition upper_char :: "char \<Rightarrow> char" where
  "upper_char c =
     (case map_of (zip ''abcdefghijklmnopqrstuvwxyz'' ''ABCDEFGHIJKLMNOPQRSTUVWXYZ'') c of
        None \<Rightarrow> c
      | Some u \<Rightarrow> u)"

definition upper :: "string \<Rightarrow> string" where
  "upper s = map upper_char s"

text \<open>\<open>s.split(",")\<close>: the pieces between the separators, empty pieces included.\<close>

fun split_at :: "char \<Rightarrow> string \<Rightarrow> string list" where
  "split_at sep [] = [[]]"
| "split_at sep (c # cs) =
     (if c = sep then [] # split_at sep cs
      else (case split_at sep cs of
              [] \<Rightarrow> [[c]]
            | w # ws \<Rightarrow> (c # w) # ws))"

text \<open>Truthiness of an optional string and Python's \<open>x or y\<close> on such values.\<close>

fun truthy :: "string option \<Rightarrow> bool" where
  "truthy None = False"
| "truthy (Some s) = (s \<noteq> [])"

fun or_else :: "string option \<Rightarrow> string option \<Rightarrow> string option" where
  "or_else None y = y"
| "or_else (Some s) y = (if s \<noteq> [] then Some s else y)"

fun or_str :: "string option \<Rightarrow> string \<Rightarrow> string" where
  "or_str None d = d"
| "or_str (Some s) d = (if s \<noteq> [] then s else d)"

text \<open>How \<open>str.format\<close> prints an argument that is a string or \<open>None\<close>.\<close>

fun py_str :: "string option \<Rightarrow> string" where
  "py_str None = ''None''"
| "py_str (Some s) = s"

subsection \<open>\<open>str.format\<close> with keyword arguments\<close>

text \<open>
  The template is read from left to right. \<open>{{\<close> and \<open>}}\<close> stand for one brace, a lone
  brace is a \<open>ValueError\<close>, and \<open>{field}\<close> is replaced by the keyword argument of that
  name: a missing name is a \<open>KeyError\<close>, an empty or numeric field asks for a positional
  argument, of which there is none, and is an \<open>IndexError\<close>. A field with a conversion
  (\<open>!\<close>), a format specification (\<open>:\<close>) or an attribute or index lookup (\<open>.\<close>, \<open>[\<close>) is
  outside this model, which answers \<open>UnmodelledFormatField\<close> for it.
\<close>

definition is_positional :: "string \<Rightarrow> bool" where
  "is_positional f = list_all (\<lambda>c. List.member ''0123456789'' c) f"

definition format_field :: "(string \<times> string) list \<Rightarrow> string \<Rightarrow> error + string" where
  "format_field kwargs f =
     (if is_positional f then Inl IndexError
      else (case map_of kwargs f of
              None \<Rightarrow> Inl KeyError
            | Some v \<Rightarrow> Inr v))"

fun format_text :: "(string \<times> string) list \<Rightarrow> string \<Rightarrow> error + string"
  and format_repl :: "(string \<times> string) list \<Rightarrow> string \<Rightarrow> string \<Rightarrow> error + string" where
  "format_text kwargs [] = Inr []"
| "format_text kwargs [c] =
     (if c = CHR ''{'' \<or> c = CHR ''}'' then Inl ValueError else Inr [c])"
| "format_text kwargs (c # d # cs) =
     (if c = CHR ''{'' then
        (if d = CHR ''{'' then
           (case format_text kwargs cs of Inl e \<Rightarrow> Inl e | Inr r \<Rightarrow> Inr (c # r))
         else format_repl kwargs [] (d # cs))
      else if c = CHR ''}'' then
        (if d = CHR ''}'' then
           (case format_text kwargs cs of Inl e \<Rightarrow> Inl e | Inr r \<Rightarrow> Inr (c # r))
         else Inl ValueError)
      else (case format_text kwargs (d # cs) of Inl e \<Rightarrow> Inl e | Inr r \<Rightarrow> Inr (c # r)))"
| "format_repl kwargs f [] = Inl ValueError"
| "format_repl kwargs f (c # cs) =
     (if c = CHR ''}'' then
        (case format_field kwargs f of
           Inl e \<Rightarrow> Inl e
         | Inr v \<Rightarrow> (case format_text kwargs cs of Inl e \<Rightarrow> Inl e | Inr r \<Rightarrow> Inr (v @ r)))
      else if c = CHR ''{'' then Inl ValueError
      else if List.member ''!:.['' c then Inl UnmodelledFormatField
      else format_repl kwargs (f @ [c]) cs)"

definition format_py :: "string \<Rightarrow> (string \<times> string) list \<Rightarrow> error + string" where
  "format_py template kwargs = format_text kwargs template"

section \<open>The agent, its environment and the completion provider\<close>

text \<open>
  The fields of an \<open>OpenAIAgent\<close> that the conversation methods read or write.
  \<open>conversation_attr\<close> is the attribute \<open>_conversation__\<close>, \<open>agent_name\<close> is
  \<open>_agent_name\<close>, and \<open>messages\<close> and \<open>replies\<close> are the two logs. The attribute
  \<open>conversation_start_time\<close> holds a clock reading that no method reads back; it is left out.
\<close>

record agent =
  agent_name :: string
  username :: "string option"
  START_TEMPLATE :: string
  MSG_TEMPLATE :: string
  completion_params :: "string \<rightharpoonup> pyval"
  conversation_attr :: "string option"
  is_conversation_active :: bool
  messages :: "string list"
  replies :: "string list"

text \<open>What one call of \<open>openai.Completion.create\<close> receives.\<close>

record request =
  req_prompt :: string
  req_params :: "string \<rightharpoonup> pyval"
  req_stop :: "string list"

text \<open>
  The world outside the agent: the environment variable \<open>AVAILABLE_ENGINES\<close>, the
  identifiers \<open>openai.Engine.list()\<close> answers with (or the exception it raises), and the
  completion endpoint, which answers a request with the texts of its choices or raises.
  The requests the endpoint has received are kept in a list, oldest first, that the
  methods calling the provider take and return.
\<close>

record env =
  AVAILABLE_ENGINES :: "string option"
  Engine_list :: "error + string list"
  Completion_create :: "request \<Rightarrow> error + string list"

definition get_available_engines :: "env \<Rightarrow> error + string list" where
  "get_available_engines ev =
     (case AVAILABLE_ENGINES ev of
        None \<Rightarrow> Engine_list ev
      | Some v \<Rightarrow> if v = [] then Engine_list ev else Inr (split_at CHR '','' v))"

subsection \<open>Construction\<close>

definition class_START_TEMPLATE :: string where
  "class_START_TEMPLATE = strip
     ([NL] @ ''The following is a conversation with an AI. The AI is helpful, apolitical, clever, and very friendly. ''
      @ [NL] @ ''The AI's name is {AGENT_NAME} and is talking with {USERNAME}.''
      @ [NL] @ ''    '')"

definition class_MSG_TEMPLATE :: string where
  "class_MSG_TEMPLATE = ''{user_name}:{MSG}'' @ [NL] @ ''{AGENT_NAME}:''"

record init_args =
  arg_name :: "string option"
  arg_engine :: string
  arg_start_template :: "string option"
  arg_msg_template :: "string option"
  arg_max_response_length :: pyval
  arg_temperature :: pyval
  arg_top_p :: pyval
  arg_frequency_penalty :: pyval
  arg_presence_penalty :: pyval
  arg_n_completions_per_prompt :: pyval
  arg_extra_params :: "string \<rightharpoonup> pyval"

text \<open>The defaults of \<open>__init__\<close>: the floats 0.8, 0.3 and 0.1 are written out as doubles.\<close>

definition default_args :: init_args where
  "default_args =
     \<lparr>arg_name = None,
      arg_engine = ''text-davinci-003'',
      arg_start_template = None,
      arg_msg_template = None,
      arg_max_response_length = PyInt 150,
      arg_temperature = PyFloat 3602879701896397 (- 52),
      arg_top_p = PyInt 1,
      arg_frequency_penalty = PyFloat 5404319552844595 (- 54),
      arg_presence_penalty = PyFloat 3602879701896397 (- 55),
      arg_n_completions_per_prompt = PyInt 1,
      arg_extra_params = Map.empty\<rparr>"

text \<open>
  \<open>__init__\<close>, without the loading of the API key. The keywords \<open>max_tokens\<close> and \<open>n\<close>
  are passed to \<open>dict\<close> both by name and inside \<open>**extra_params\<close> when the caller gives
  them, which \<open>dict\<close> refuses with a \<open>TypeError\<close>.
\<close>

definition init :: "env \<Rightarrow> init_args \<Rightarrow> error + agent" where
  "init ev a =
     (case get_available_engines ev of
        Inl e \<Rightarrow> Inl e
      | Inr available_engines \<Rightarrow>
          if \<not> List.member available_engines (arg_engine a) then Inl ValueError
          else if arg_extra_params a ''max_tokens'' \<noteq> None then Inl TypeError
          else if arg_extra_params a ''n'' \<noteq> None then Inl TypeError
          else Inr
            \<lparr>agent_name = (if truthy (arg_name a) then py_str (arg_name a) else upper (arg_engine a)),
             username = None,
             START_TEMPLATE = (if truthy (arg_start_template a) then py_str (arg_start_template a)
                               else class_START_TEMPLATE @ [NL]),
             MSG_TEMPLATE = (if truthy (arg_msg_template a) then py_str (arg_msg_template a)
                             else class_MSG_TEMPLATE),
             completion_params = (arg_extra_params a)
               (''engine'' \<mapsto> PyStr (arg_engine a),
                ''temperature'' \<mapsto> arg_temperature a,
                ''top_p'' \<mapsto> arg_top_p a,
                ''frequency_penalty'' \<mapsto> arg_frequency_penalty a,
                ''presence_penalty'' \<mapsto> arg_presence_penalty a,
                ''max_tokens'' \<mapsto> arg_max_response_length a,
                ''n'' \<mapsto> arg_n_completions_per_prompt a),
             conversation_attr = None,
             is_conversation_active = False,
             messages = [],
             replies = []\<rparr>)"

subsection \<open>Properties\<close>

definition conversation :: "agent \<Rightarrow> string" where
  "conversation s = (case conversation_attr s of None \<Rightarrow> [] | Some c \<Rightarrow> c)"

text \<open>
  The property \<open>name\<close>: the configured name unless it is the identifier of an available
  engine, in which case the upper-cased engine of the completion parameters.
\<close>

definition name :: "env \<Rightarrow> agent \<Rightarrow> error + string" where
  "name ev s =
     (case get_available_engines ev of
        Inl e \<Rightarrow> Inl e
      | Inr available_engines \<Rightarrow>
          if \<not> List.member available_engines (agent_name s) then Inr (agent_name s)
          else (case completion_params s ''engine'' of
                  None \<Rightarrow> Inl KeyError
                | Some (PyStr e) \<Rightarrow> Inr (upper e)
                | Some _ \<Rightarrow> Inl AttributeError))"

subsection \<open>Conversation methods\<close>

definition start_conversation :: "env \<Rightarrow> agent \<Rightarrow> string option \<Rightarrow> (error + unit) \<times> agent" where
  "start_conversation ev s user_name =
     (case name ev s of
        Inl e \<Rightarrow> (Inl e, s)
      | Inr n \<Rightarrow>
          (case format_py (START_TEMPLATE s)
                  [(''AGENT_NAME'', n),
                   (''USERNAME'', if truthy user_name then ''a person named '' @ py_str user_name
                                  else ''a human'')] of
             Inl e \<Rightarrow> (Inl e, s)
           | Inr text \<Rightarrow>
               (Inr (),
                s\<lparr>conversation_attr := Some text,
                  is_conversation_active := True,
                  username := Some (or_str user_name ''HUMAN'')\<rparr>)))"

definition set_conversation :: "agent \<Rightarrow> string \<Rightarrow> agent" where
  "set_conversation s conv = s\<lparr>conversation_attr := Some conv\<rparr>"

text \<open>
  \<open>add_to_conversation\<close> evaluates \<open>self.conversation.append(string)\<close>; the property
  \<open>conversation\<close> is a \<open>str\<close>, which has no attribute \<open>append\<close>, so the attribute lookup
  raises before anything is assigned.
\<close>

definition add_to_conversation :: "agent \<Rightarrow> string \<Rightarrow> (error + unit) \<times> agent" where
  "add_to_conversation s string = (Inl AttributeError, s)"

text \<open>
  \<open>make_chat_prompt\<close>: the local \<open>username\<close> is fixed before the conversation is started,
  and \<open>start_conversation\<close> is called without an argument.
\<close>

definition make_chat_prompt ::
  "env \<Rightarrow> agent \<Rightarrow> string \<Rightarrow> string option \<Rightarrow> bool \<Rightarrow> (error + string) \<times> agent" where
  "make_chat_prompt ev s msg username_arg continue_conversation =
     (let username' = or_else username_arg (username s) in
      case (if \<not> is_conversation_active s \<or> \<not> continue_conversation
            then start_conversation ev s None else (Inr (), s)) of
        (Inl e, s1) \<Rightarrow> (Inl e, s1)
      | (Inr _, s1) \<Rightarrow>
          (case name ev s1 of
             Inl e \<Rightarrow> (Inl e, s1)
           | Inr n \<Rightarrow>
               (case format_py (MSG_TEMPLATE s1)
                       [(''user_name'', py_str username'), (''AGENT_NAME'', n), (''MSG'', strip msg)] of
                  Inl e \<Rightarrow> (Inl e, s1)
                | Inr prompt \<Rightarrow> (Inr prompt, s1))))"

text \<open>
  \<open>get_completion\<close>: the keyword \<open>prompt\<close> or \<open>stop\<close> among the parameters collides with
  the explicit keyword of the call (\<open>TypeError\<close>); otherwise the provider receives the
  request, which is recorded, and answers or raises.
\<close>

definition get_completion ::
  "env \<Rightarrow> agent \<Rightarrow> request list \<Rightarrow> string \<Rightarrow> string list \<Rightarrow> (string \<rightharpoonup> pyval)
     \<Rightarrow> (error + string list) \<times> request list" where
  "get_completion ev s received prompt stop kwargs =
     (let params0 = completion_params s;
          params1 = params0(''max_tokens'' \<mapsto>
                      (case params0 ''max_tokens'' of None \<Rightarrow> PyInt 150 | Some v \<Rightarrow> v));
          params2 = params1 ++ kwargs;
          req = \<lparr>req_prompt = prompt, req_params = params2, req_stop = stop\<rparr>
      in if params2 ''prompt'' = None \<and> params2 ''stop'' = None
         then (Completion_create ev req, received @ [req])
         else (Inl TypeError, received))"

text \<open>\<open>max_response_length or self.completion_params.get("max_tokens")\<close>\<close>

definition max_tokens_arg :: "agent \<Rightarrow> int option \<Rightarrow> pyval" where
  "max_tokens_arg s max_response_length =
     (let stored = (case completion_params s ''max_tokens'' of None \<Rightarrow> PyNone | Some v \<Rightarrow> v)
      in case max_response_length of
           None \<Rightarrow> stored
         | Some n \<Rightarrow> if n \<noteq> 0 then PyInt n else stored)"

text \<open>
  \<open>update_conversation\<close>: the left operand \<open>self.conversation\<close> is read before
  \<open>make_chat_prompt\<close> runs; the reply is logged as given, the transcript gets it stripped.
\<close>

definition update_conversation ::
  "env \<Rightarrow> agent \<Rightarrow> string \<Rightarrow> string option \<Rightarrow> (error + unit) \<times> agent" where
  "update_conversation ev s msg reply_arg =
     (let reply = or_str reply_arg [];
          before = conversation s
      in case make_chat_prompt ev s msg None True of
           (Inl e, s1) \<Rightarrow> (Inl e, s1)
         | (Inr prompt, s1) \<Rightarrow>
             (Inr (),
              s1\<lparr>conversation_attr := Some (before @ prompt @ strip reply @ [NL]),
                 messages := messages s1 @ [msg],
                 replies := (if reply \<noteq> [] then replies s1 @ [reply] else replies s1)\<rparr>))"

definition send_message :: "env \<Rightarrow> agent \<Rightarrow> string \<Rightarrow> (error + unit) \<times> agent" where
  "send_message ev s msg = update_conversation ev s msg None"

text \<open>
  \<open>get_single_reply\<close>: the stop sequences are built after the prompt; \<open>user_name + ":"\<close>
  is a \<open>TypeError\<close> when \<open>user_name\<close> is \<open>None\<close>. The text of the first choice is returned
  as it is; an empty list of choices is an \<open>IndexError\<close>.
\<close>

definition get_single_reply ::
  "env \<Rightarrow> agent \<Rightarrow> request list \<Rightarrow> string \<Rightarrow> int option \<Rightarrow> string option
     \<Rightarrow> (error + string) \<times> agent \<times> request list" where
  "get_single_reply ev s received msg max_response_length user_name_arg =
     (let user_name = or_else user_name_arg (username s) in
      case make_chat_prompt ev s msg None False of
        (Inl e, s1) \<Rightarrow> (Inl e, s1, received)
      | (Inr new_prompt, s1) \<Rightarrow>
          (case user_name of
             None \<Rightarrow> (Inl TypeError, s1, received)
           | Some u \<Rightarrow>
               (case name ev s1 of
                  Inl e \<Rightarrow> (Inl e, s1, received)
                | Inr n \<Rightarrow>
                    (case get_completion ev s1 received new_prompt [u @ '':'', n @ '':'']
                            [''max_tokens'' \<mapsto> max_tokens_arg s1 max_response_length] of
                       (Inl e, received1) \<Rightarrow> (Inl e, s1, received1)
                     | (Inr choices, received1) \<Rightarrow>
                         (case choices of
                            [] \<Rightarrow> (Inl IndexError, s1, received1)
                          | reply_txt # _ \<Rightarrow> (Inr reply_txt, s1, received1))))))"

text \<open>
  \<open>get_reply\<close>: an absent or empty message takes the \<open>else\<close> branch, where the prompt is
  the transcript and the logged message the empty string. The provider is called with
  \<open>self.conversation + prompt\<close>.
\<close>

definition get_reply ::
  "env \<Rightarrow> agent \<Rightarrow> request list \<Rightarrow> string option \<Rightarrow> int option
     \<Rightarrow> (error + string) \<times> agent \<times> request list" where
  "get_reply ev s received msg_arg max_response_length =
     (case (if truthy msg_arg then make_chat_prompt ev s (py_str msg_arg) None True
            else (Inr (conversation s), s)) of
        (Inl e, s1) \<Rightarrow> (Inl e, s1, received)
      | (Inr prompt, s1) \<Rightarrow>
          (let msg = (if truthy msg_arg then py_str msg_arg else []);
               user_name = or_str (username s1) ''HUMAN''
           in case name ev s1 of
                Inl e \<Rightarrow> (Inl e, s1, received)
              | Inr n \<Rightarrow>
                  (case get_completion ev s1 received (conversation s1 @ prompt)
                          [user_name @ '':'', n @ '':'']
                          [''max_tokens'' \<mapsto> max_tokens_arg s1 max_response_length] of
                     (Inl e, received1) \<Rightarrow> (Inl e, s1, received1)
                   | (Inr choices, received1) \<Rightarrow>
                       (case choices of
                          [] \<Rightarrow> (Inl IndexError, s1, received1)
                        | text # _ \<Rightarrow>
                            (let reply_txt = sub_trailing_newlines (strip text) in
                             case update_conversation ev s1 msg (Some reply_txt) of
                               (Inl e, s2) \<Rightarrow> (Inl e, s2, received1)
                             | (Inr _, s2) \<Rightarrow> (Inr reply_txt, s2, received1))))))"

section \<open>Example engines\<close>

text \<open>
  A world in which \<open>AVAILABLE_ENGINES\<close> is set, with a completion endpoint \<open>p\<close>; an
  endpoint that always raises, one that always answers with one choice, and one whose
  only choice is white space.
\<close>

definition failing_provider :: "request \<Rightarrow> error + string list" where
  "failing_provider req = Inl ProviderError"

definition hello_provider :: "request \<Rightarrow> error + string list" where
  "hello_provider req = Inr [''  hello there!'' @ [NL, NL, NL]]"

definition blank_provider :: "request \<Rightarrow> error + string list" where
  "blank_provider req = Inr [''  '' @ [NL]]"

definition example_env :: "(request \<Rightarrow> error + string list) \<Rightarrow> env" where
  "example_env p =
     \<lparr>AVAILABLE_ENGINES = Some ''text-davinci-003,text-curie-001'',
      Engine_list = Inl ProviderError,
      Completion_create = p\<rparr>"

text \<open>\<open>OpenAIAgent(name="BOT")\<close> as \<open>__init__\<close> leaves it.\<close>

definition bot_args :: init_args where
  "bot_args = default_args\<lparr>arg_name := Some ''BOT''\<rparr>"

definition fresh_bot :: agent where
  "fresh_bot =
     \<lparr>agent_name = ''BOT'',
      username = None,
      START_TEMPLATE = class_START_TEMPLATE @ [NL],
      MSG_TEMPLATE = class_MSG_TEMPLATE,
      completion_params = Map.empty
        (''engine'' \<mapsto> PyStr ''text-davinci-003'',
         ''temperature'' \<mapsto> PyFloat 3602879701896397 (- 52),
         ''top_p'' \<mapsto> PyInt 1,
         ''frequency_penalty'' \<mapsto> PyFloat 5404319552844595 (- 54),
         ''presence_penalty'' \<mapsto> PyFloat 3602879701896397 (- 55),
         ''max_tokens'' \<mapsto> PyInt 150,
         ''n'' \<mapsto> PyInt 1),
      conversation_attr = None,
      is_conversation_active = False,
      messages = [],
      replies = []\<rparr>"

text \<open>The class's start template, rendered for an agent name and a description of the human.\<close>

definition rendered_start :: "string \<Rightarrow> string \<Rightarrow> string" where
  "rendered_start n u =
     ''The following is a conversation with an AI. The AI is helpful, apolitical, clever, and very friendly. ''
     @ [NL] @ ''The AI's name is '' @ n @ '' and is talking with '' @ u @ ''.'' @ [NL]"

text \<open>The agent \<open>fresh_bot\<close> after \<open>start_conversation("Alice")\<close> and after \<open>start_conversation()\<close>.\<close>

definition alice_bot :: agent where
  "alice_bot =
     fresh_bot\<lparr>conversation_attr := Some (rendered_start ''BOT'' ''a person named Alice''),
         is_conversation_active := True,
         username := Some ''Alice''\<rparr>"

definition human_bot :: agent where
  "human_bot =
     fresh_bot\<lparr>conversation_attr := Some (rendered_start ''BOT'' ''a human''),
         is_conversation_active := True,
         username := Some ''HUMAN''\<rparr>"

section \<open>Facts about the methods\<close>

text \<open>What each method leaves of the agent, and what a successful call has computed.\<close>

lemma start_conversation_failure:
  "start_conversation ev s u = (Inl e, s1) \<Longrightarrow> s1 = s"
  by (auto simp: start_conversation_def split: sum.splits)

lemma start_conversation_success:
  "start_conversation ev s u = (Inr x, s1) \<Longrightarrow>
     \<exists>n text. name ev s = Inr n \<and>
       format_py (START_TEMPLATE s)
         [(''AGENT_NAME'', n),
          (''USERNAME'', if truthy u then ''a person named '' @ py_str u else ''a human'')] = Inr text \<and>
       s1 = s\<lparr>conversation_attr := Some text, is_conversation_active := True,
              username := Some (or_str u ''HUMAN'')\<rparr>"
  by (auto simp: start_conversation_def split: sum.splits)

lemma name_cong:
  "agent_name s1 = agent_name s \<Longrightarrow> completion_params s1 = completion_params s \<Longrightarrow>
   name ev s1 = name ev s"
  by (simp add: name_def split: sum.splits)

lemma start_conversation_frame:
  "start_conversation ev s u = (r, s1) \<Longrightarrow>
     messages s1 = messages s \<and> replies s1 = replies s \<and> agent_name s1 = agent_name s \<and>
     completion_params s1 = completion_params s \<and> START_TEMPLATE s1 = START_TEMPLATE s \<and>
     MSG_TEMPLATE s1 = MSG_TEMPLATE s"
  by (auto simp: start_conversation_def split: sum.splits)

lemma make_chat_prompt_continue:
  "is_conversation_active s \<Longrightarrow> snd (make_chat_prompt ev s msg u True) = s"
  by (auto simp: make_chat_prompt_def Let_def split: sum.splits)

lemma make_chat_prompt_start:
  "\<not> is_conversation_active s \<or> \<not> cc \<Longrightarrow>
   snd (make_chat_prompt ev s msg u cc) = snd (start_conversation ev s None)"
  by (auto simp: make_chat_prompt_def Let_def split: sum.splits prod.splits dest: start_conversation_failure)

lemma make_chat_prompt_success:
  "make_chat_prompt ev s msg u cc = (Inr p, s1) \<Longrightarrow>
     is_conversation_active s1 \<and>
     (\<exists>n. name ev s1 = Inr n \<and>
        format_py (MSG_TEMPLATE s1)
          [(''user_name'', py_str (or_else u (username s))), (''AGENT_NAME'', n), (''MSG'', strip msg)] = Inr p)"
  by (auto simp: make_chat_prompt_def Let_def split: sum.splits prod.splits if_splits dest: start_conversation_success)

lemma make_chat_prompt_frame:
  "make_chat_prompt ev s msg u cc = (r, s1) \<Longrightarrow>
     messages s1 = messages s \<and> replies s1 = replies s \<and> agent_name s1 = agent_name s \<and>
     completion_params s1 = completion_params s \<and> START_TEMPLATE s1 = START_TEMPLATE s \<and>
     MSG_TEMPLATE s1 = MSG_TEMPLATE s"
  by (auto simp: make_chat_prompt_def Let_def split: sum.splits prod.splits if_splits dest: start_conversation_frame)

lemma update_conversation_success:
  "update_conversation ev s msg reply = (Inr x, s') \<Longrightarrow>
     \<exists>p s1. make_chat_prompt ev s msg None True = (Inr p, s1) \<and>
       s' = s1\<lparr>conversation_attr := Some (conversation s @ p @ strip (or_str reply []) @ [NL]),
               messages := messages s1 @ [msg],
               replies := (if or_str reply [] \<noteq> [] then replies s1 @ [or_str reply []] else replies s1)\<rparr>"
proof -
  assume a: "update_conversation ev s msg reply = (Inr x, s')"
  obtain r s1 where m: "make_chat_prompt ev s msg None True = (r, s1)"
    by (cases "make_chat_prompt ev s msg None True")
  show ?thesis
  proof (cases r)
    case (Inl e)
    with a m show ?thesis by (simp add: update_conversation_def Let_def)
  next
    case (Inr p)
    with a m show ?thesis by (auto simp: update_conversation_def Let_def)
  qed
qed

lemma get_completion_cases:
  "get_completion ev s received prompt stop kwargs = (r, received1) \<Longrightarrow>
     (received1 = received \<and> r = Inl TypeError) \<or>
     (\<exists>req. received1 = received @ [req] \<and> r = Completion_create ev req \<and>
        req_prompt req = prompt \<and> req_stop req = stop)"
  by (auto simp: get_completion_def Let_def split: if_splits)

lemma make_chat_prompt_started:
  assumes "make_chat_prompt ev s msg u cc = (Inr p, s1)"
    and "\<not> is_conversation_active s \<or> \<not> cc"
  shows "start_conversation ev s None = (Inr (), s1)"
  using assms
  by (auto simp: make_chat_prompt_def Let_def split: sum.splits prod.splits if_splits)

lemma make_chat_prompt_kept:
  assumes "make_chat_prompt ev s msg u True = (r, s1)" and "is_conversation_active s"
  shows "s1 = s"
  using make_chat_prompt_continue[OF assms(2), of ev msg u] assms(1) by simp

lemma get_reply_call:
  assumes "get_reply ev s received msg mrl = (r, s', received')"
    and "received' \<noteq> received"
  shows "\<exists>prompt s1 n req.
           (if truthy msg then make_chat_prompt ev s (py_str msg) None True
            else (Inr (conversation s), s)) = (Inr prompt, s1) \<and>
           name ev s1 = Inr n \<and>
           received' = received @ [req] \<and>
           req_prompt req = conversation s1 @ prompt \<and>
           req_stop req = [or_str (username s1) ''HUMAN'' @ '':'', n @ '':''] \<and>
           (case Completion_create ev req of
              Inl e \<Rightarrow> r = Inl e \<and> s' = s1
            | Inr [] \<Rightarrow> r = Inl IndexError \<and> s' = s1
            | Inr (text # _) \<Rightarrow>
                (r, s') =
                (case update_conversation ev s1 (if truthy msg then py_str msg else [])
                        (Some (sub_trailing_newlines (strip text))) of
                   (Inl e, s2) \<Rightarrow> (Inl e, s2)
                 | (Inr _, s2) \<Rightarrow> (Inr (sub_trailing_newlines (strip text)), s2)))"
proof -
  obtain q s1 where m: "(if truthy msg then make_chat_prompt ev s (py_str msg) None True
            else (Inr (conversation s), s)) = (q, s1)"
    by (cases "(if truthy msg then make_chat_prompt ev s (py_str msg) None True
            else (Inr (conversation s), s))")
  show ?thesis
  proof (cases q)
    case (Inl e0)
    with assms m show ?thesis by (simp add: get_reply_def)
  next
    case (Inr prompt)
    note q = this
    show ?thesis
    proof (cases "name ev s1")
      case (Inl e0)
      with assms m q show ?thesis by (simp add: get_reply_def Let_def)
    next
      case (Inr n)
      obtain c received1 where g: "get_completion ev s1 received (conversation s1 @ prompt)
          [or_str (username s1) ''HUMAN'' @ '':'', n @ '':'']
          [''max_tokens'' \<mapsto> max_tokens_arg s1 mrl] = (c, received1)"
        by (cases "get_completion ev s1 received (conversation s1 @ prompt)
          [or_str (username s1) ''HUMAN'' @ '':'', n @ '':'']
          [''max_tokens'' \<mapsto> max_tokens_arg s1 mrl]")
      have r1: "received' = received1"
        using assms(1) m q Inr g
        by (auto simp: get_reply_def Let_def split: sum.splits list.splits prod.splits)
      from get_completion_cases[OF g] assms(2) r1
      obtain req where req: "received1 = received @ [req]" "c = Completion_create ev req"
        "req_prompt req = conversation s1 @ prompt"
        "req_stop req = [or_str (username s1) ''HUMAN'' @ '':'', n @ '':'']"
        by auto
      have "(case Completion_create ev req of
              Inl e \<Rightarrow> r = Inl e \<and> s' = s1
            | Inr [] \<Rightarrow> r = Inl IndexError \<and> s' = s1
            | Inr (text # _) \<Rightarrow>
                (r, s') =
                (case update_conversation ev s1 (if truthy msg then py_str msg else [])
                        (Some (sub_trailing_newlines (strip text))) of
                   (Inl e, s2) \<Rightarrow> (Inl e, s2)
                 | (Inr _, s2) \<Rightarrow> (Inr (sub_trailing_newlines (strip text)), s2)))"
        using assms(1) m q Inr g req(2)
        by (auto simp: get_reply_def Let_def split: sum.splits list.splits prod.splits)
      with m q Inr req r1 show ?thesis by auto
    qed
  qed
qed

lemma get_reply_returns_after_call:
  assumes "get_reply ev s received msg mrl = (Inr reply, s', received')"
  shows "received' \<noteq> received"
proof -
  obtain q s1 where m: "(if truthy msg then make_chat_prompt ev s (py_str msg) None True
            else (Inr (conversation s), s)) = (q, s1)"
    by (cases "(if truthy msg then make_chat_prompt ev s (py_str msg) None True
            else (Inr (conversation s), s))")
  show ?thesis
  proof (cases q)
    case (Inl e0)
    with assms m show ?thesis by (simp add: get_reply_def)
  next
    case (Inr prompt)
    note q = this
    show ?thesis
    proof (cases "name ev s1")
      case (Inl e0)
      with assms m q show ?thesis by (simp add: get_reply_def Let_def)
    next
      case (Inr n)
      obtain c received1 where g: "get_completion ev s1 received (conversation s1 @ prompt)
          [or_str (username s1) ''HUMAN'' @ '':'', n @ '':'']
          [''max_tokens'' \<mapsto> max_tokens_arg s1 mrl] = (c, received1)"
        by (cases "get_completion ev s1 received (conversation s1 @ prompt)
          [or_str (username s1) ''HUMAN'' @ '':'', n @ '':'']
          [''max_tokens'' \<mapsto> max_tokens_arg s1 mrl]")
      have r1: "received' = received1"
        using assms(1) m q Inr g
        by (auto simp: get_reply_def Let_def split: sum.splits list.splits prod.splits)
      from get_completion_cases[OF g] have "received1 \<noteq> received \<or> c = Inl TypeError" by auto
      moreover have "c \<noteq> Inl TypeError"
        using assms(1) m q Inr g by (auto simp: get_reply_def Let_def)
      ultimately show ?thesis using r1 by simp
    qed
  qed
qed

section \<open>The class templates and the example engines, evaluated\<close>

lemma class_START_TEMPLATE_text:
  "class_START_TEMPLATE =
     ''The following is a conversation with an AI. The AI is helpful, apolitical, clever, and very friendly. ''
     @ [NL] @ ''The AI's name is {AGENT_NAME} and is talking with {USERNAME}.''"
  by (simp add: class_START_TEMPLATE_def strip_def isspace_def whitespace_def NL_def)

lemma format_start:
  "format_py (class_START_TEMPLATE @ [NL]) [(''AGENT_NAME'', n), (''USERNAME'', u)]
     = Inr (rendered_start n u)"
  by (simp add: class_START_TEMPLATE_text format_py_def format_field_def is_positional_def
      rendered_start_def NL_def)

lemma format_msg:
  "format_py class_MSG_TEMPLATE [(''user_name'', h), (''AGENT_NAME'', n), (''MSG'', m)]
     = Inr (h @ '':'' @ m @ [NL] @ n @ '':'')"
  by (simp add: class_MSG_TEMPLATE_def format_py_def format_field_def is_positional_def NL_def)

lemma init_bot: "init (example_env p) bot_args = Inr fresh_bot"
  by (simp add: init_def bot_args_def default_args_def fresh_bot_def example_env_def
      get_available_engines_def upper_def)

lemma name_example:
  "agent_name s = ''BOT'' \<Longrightarrow> name (example_env p) s = Inr ''BOT''"
  by (simp add: name_def example_env_def get_available_engines_def)

lemma start_conversation_class:
  assumes "START_TEMPLATE s = class_START_TEMPLATE @ [NL]" and "name ev s = Inr n"
  shows "start_conversation ev s u =
           (Inr (),
            s\<lparr>conversation_attr :=
                 Some (rendered_start n
                         (if truthy u then ''a person named '' @ py_str u else ''a human'')),
              is_conversation_active := True,
              username := Some (or_str u ''HUMAN'')\<rparr>)"
  using assms by (simp add: start_conversation_def format_start)

lemma make_chat_prompt_class:
  assumes "MSG_TEMPLATE s = class_MSG_TEMPLATE" and "name ev s = Inr n"
    and "is_conversation_active s"
  shows "make_chat_prompt ev s msg u True =
           (Inr (py_str (or_else u (username s)) @ '':'' @ strip msg @ [NL] @ n @ '':''), s)"
  using assms by (simp add: make_chat_prompt_def format_msg)

lemma example_bots:
  "start_conversation (example_env p) fresh_bot None = (Inr (), human_bot)"
  "start_conversation (example_env p) fresh_bot (Some ''Alice'') = (Inr (), alice_bot)"
  "start_conversation (example_env p) alice_bot None = (Inr (), human_bot)"
  "name (example_env p) fresh_bot = Inr ''BOT''"
  "name (example_env p) alice_bot = Inr ''BOT''"
  "name (example_env p) human_bot = Inr ''BOT''"
proof -
  show n: "name (example_env p) fresh_bot = Inr ''BOT''"
    by (rule name_example) (simp add: fresh_bot_def)
  show na: "name (example_env p) alice_bot = Inr ''BOT''"
    by (rule name_example) (simp add: alice_bot_def fresh_bot_def)
  show "name (example_env p) human_bot = Inr ''BOT''"
    by (rule name_example) (simp add: human_bot_def fresh_bot_def)
  have t: "START_TEMPLATE fresh_bot = class_START_TEMPLATE @ [NL]"
    "START_TEMPLATE alice_bot = class_START_TEMPLATE @ [NL]"
    by (simp_all add: alice_bot_def fresh_bot_def)
  show "start_conversation (example_env p) fresh_bot None = (Inr (), human_bot)"
    by (simp add: start_conversation_class[OF t(1) n] human_bot_def)
  show "start_conversation (example_env p) fresh_bot (Some ''Alice'') = (Inr (), alice_bot)"
    by (simp add: start_conversation_class[OF t(1) n] alice_bot_def)
  show "start_conversation (example_env p) alice_bot None = (Inr (), human_bot)"
    unfolding start_conversation_class[OF t(2) na]
    by (simp add: alice_bot_def human_bot_def)
qed

lemma example_prompts:
  "make_chat_prompt (example_env p) fresh_bot msg u True =
     (Inr (py_str (or_else u None) @ '':'' @ strip msg @ [NL] @ ''BOT:''), human_bot)"
  "make_chat_prompt (example_env p) alice_bot msg u False =
     (Inr (py_str (or_else u (Some ''Alice'')) @ '':'' @ strip msg @ [NL] @ ''BOT:''), human_bot)"
  "make_chat_prompt (example_env p) alice_bot msg u True =
     (Inr (py_str (or_else u (Some ''Alice'')) @ '':'' @ strip msg @ [NL] @ ''BOT:''), alice_bot)"
  "make_chat_prompt (example_env p) human_bot msg u True =
     (Inr (py_str (or_else u (Some ''HUMAN'')) @ '':'' @ strip msg @ [NL] @ ''BOT:''), human_bot)"
  "make_chat_prompt (example_env p) fresh_bot msg u False =
     (Inr (py_str (or_else u None) @ '':'' @ strip msg @ [NL] @ ''BOT:''), human_bot)"
proof -
  have h: "MSG_TEMPLATE human_bot = class_MSG_TEMPLATE" "username fresh_bot = None"
    "username alice_bot = Some ''Alice''" "username human_bot = Some ''HUMAN''"
    "is_conversation_active human_bot" "is_conversation_active alice_bot"
    "\<not> is_conversation_active fresh_bot" "MSG_TEMPLATE alice_bot = class_MSG_TEMPLATE"
    by (simp_all add: human_bot_def alice_bot_def fresh_bot_def)
  show "make_chat_prompt (example_env p) fresh_bot msg u True =
     (Inr (py_str (or_else u None) @ '':'' @ strip msg @ [NL] @ ''BOT:''), human_bot)"
    by (simp add: make_chat_prompt_def example_bots h format_msg)
  show "make_chat_prompt (example_env p) fresh_bot msg u False =
     (Inr (py_str (or_else u None) @ '':'' @ strip msg @ [NL] @ ''BOT:''), human_bot)"
    by (simp add: make_chat_prompt_def example_bots h format_msg)
  show "make_chat_prompt (example_env p) alice_bot msg u False =
     (Inr (py_str (or_else u (Some ''Alice'')) @ '':'' @ strip msg @ [NL] @ ''BOT:''), human_bot)"
    by (simp add: make_chat_prompt_def example_bots h format_msg)
  show "make_chat_prompt (example_env p) alice_bot msg u True =
     (Inr (py_str (or_else u (Some ''Alice'')) @ '':'' @ strip msg @ [NL] @ ''BOT:''), alice_bot)"
    by (simp add: make_chat_prompt_def example_bots h format_msg)
  show "make_chat_prompt (example_env p) human_bot msg u True =
     (Inr (py_str (or_else u (Some ''HUMAN'')) @ '':'' @ strip msg @ [NL] @ ''BOT:''), human_bot)"
    by (simp add: make_chat_prompt_def example_bots h format_msg)
qed

lemma strip_hi: "strip ''hi'' = ''hi''" "strip ''Hi'' = ''Hi''" "strip [] = []"
  by (simp_all add: strip_def isspace_def whitespace_def)

lemma example_fields:
  "conversation fresh_bot = []" "messages fresh_bot = []" "replies fresh_bot = []"
  "conversation human_bot = rendered_start ''BOT'' ''a human''"
  "messages human_bot = []" "replies human_bot = []"
  "conversation alice_bot = rendered_start ''BOT'' ''a person named Alice''"
  "messages alice_bot = []" "replies alice_bot = []"
  "username alice_bot = Some ''Alice''" "username human_bot = Some ''HUMAN''"
  "username fresh_bot = None"
  "is_conversation_active human_bot" "is_conversation_active alice_bot"
  "\<not> is_conversation_active fresh_bot"
  by (simp_all add: conversation_def fresh_bot_def human_bot_def alice_bot_def)

lemma example_send:
  "send_message (example_env p) fresh_bot ''hi'' =
     (Inr (), human_bot\<lparr>conversation_attr := Some (''None:hi'' @ [NL] @ ''BOT:'' @ [NL]),
                        messages := [''hi'']\<rparr>)"
  by (simp add: send_message_def update_conversation_def example_prompts strip_hi
      example_fields)

lemma get_completion_max_tokens:
  assumes "completion_params s ''prompt'' = None" and "completion_params s ''stop'' = None"
  shows "get_completion ev s received prompt stop [''max_tokens'' \<mapsto> v] =
           (Completion_create ev
              \<lparr>req_prompt = prompt, req_params = (completion_params s)(''max_tokens'' \<mapsto> v),
               req_stop = stop\<rparr>,
            received @
              [\<lparr>req_prompt = prompt, req_params = (completion_params s)(''max_tokens'' \<mapsto> v),
                req_stop = stop\<rparr>])"
  using assms by (simp add: get_completion_def Let_def)

lemma example_params:
  "completion_params human_bot ''prompt'' = None" "completion_params human_bot ''stop'' = None"
  "completion_params alice_bot ''prompt'' = None" "completion_params alice_bot ''stop'' = None"
  by (simp_all add: human_bot_def alice_bot_def fresh_bot_def)

lemma example_provider:
  "Completion_create (example_env p) = p"
  by (simp add: example_env_def)

lemma strip_hello:
  "sub_trailing_newlines (strip (''  hello there!'' @ [NL, NL, NL])) = ''hello there!''"
  "strip ''hello there!'' = ''hello there!''"
  by (simp_all add: sub_trailing_newlines_def strip_def isspace_def whitespace_def NL_def)

lemma example_failed_reply:
  "get_reply (example_env failing_provider) fresh_bot received (Some ''hi'') None =
     (Inl ProviderError, human_bot,
      received @
        [\<lparr>req_prompt = rendered_start ''BOT'' ''a human'' @ ''None:hi'' @ [NL] @ ''BOT:'',
          req_params = (completion_params human_bot)
             (''max_tokens'' \<mapsto> max_tokens_arg human_bot None),
          req_stop = [''HUMAN:'', ''BOT:'']\<rparr>])"
  by (simp add: get_reply_def example_prompts example_bots example_fields strip_hi
      get_completion_max_tokens example_params example_provider failing_provider_def)

lemma example_reply:
  "get_reply (example_env hello_provider) fresh_bot received (Some ''hi'') None =
     (Inr ''hello there!'',
      human_bot\<lparr>conversation_attr :=
                  Some (rendered_start ''BOT'' ''a human'' @ ''HUMAN:hi'' @ [NL] @ ''BOT:hello there!'' @ [NL]),
                messages := [''hi''], replies := [''hello there!'']\<rparr>,
      received @
        [\<lparr>req_prompt = rendered_start ''BOT'' ''a human'' @ ''None:hi'' @ [NL] @ ''BOT:'',
          req_params = (completion_params human_bot)
             (''max_tokens'' \<mapsto> max_tokens_arg human_bot None),
          req_stop = [''HUMAN:'', ''BOT:'']\<rparr>])"
  by (simp add: get_reply_def example_prompts example_bots example_fields strip_hi strip_hello[simplified] Let_def
      get_completion_max_tokens example_params example_provider hello_provider_def
      update_conversation_def)

lemma strip_blank:
  "sub_trailing_newlines (strip (''  '' @ [NL])) = []"
  by (simp add: sub_trailing_newlines_def strip_def isspace_def whitespace_def NL_def)

lemma example_blank_reply:
  "get_reply (example_env blank_provider) fresh_bot received (Some ''hi'') None =
     (Inr [],
      human_bot\<lparr>conversation_attr :=
                  Some (rendered_start ''BOT'' ''a human'' @ ''HUMAN:hi'' @ [NL] @ ''BOT:'' @ [NL]),
                messages := [''hi'']\<rparr>,
      received @
        [\<lparr>req_prompt = rendered_start ''BOT'' ''a human'' @ ''None:hi'' @ [NL] @ ''BOT:'',
          req_params = (completion_params human_bot)
             (''max_tokens'' \<mapsto> max_tokens_arg human_bot None),
          req_stop = [''HUMAN:'', ''BOT:'']\<rparr>])"
  by (simp add: get_reply_def example_prompts example_bots example_fields strip_hi
      strip_blank[simplified] Let_def get_completion_max_tokens example_params
      example_provider blank_provider_def update_conversation_def)

lemma example_alice_reply:
  "get_reply (example_env hello_provider) alice_bot received (Some ''hi'') None =
     (Inr ''hello there!'',
      alice_bot\<lparr>conversation_attr :=
                  Some (rendered_start ''BOT'' ''a person named Alice'' @ ''Alice:hi'' @ [NL] @ ''BOT:hello there!'' @ [NL]),
                messages := [''hi''], replies := [''hello there!'']\<rparr>,
      received @
        [\<lparr>req_prompt = rendered_start ''BOT'' ''a person named Alice'' @ ''Alice:hi'' @ [NL] @ ''BOT:'',
          req_params = (completion_params alice_bot)
             (''max_tokens'' \<mapsto> max_tokens_arg alice_bot None),
          req_stop = [''Alice:'', ''BOT:'']\<rparr>])"
  by (simp add: get_reply_def example_prompts example_bots example_fields strip_hi strip_hello[simplified] Let_def
      get_completion_max_tokens example_params example_provider hello_provider_def
      update_conversation_def)

lemma example_requery:
  "get_reply (example_env hello_provider) alice_bot received None None =
     (Inr ''hello there!'',
      alice_bot\<lparr>conversation_attr :=
                  Some (rendered_start ''BOT'' ''a person named Alice'' @ ''Alice:'' @ [NL] @ ''BOT:hello there!'' @ [NL]),
                messages := [[]], replies := [''hello there!'']\<rparr>,
      received @
        [\<lparr>req_prompt = rendered_start ''BOT'' ''a person named Alice''
                        @ rendered_start ''BOT'' ''a person named Alice'',
          req_params = (completion_params alice_bot)
             (''max_tokens'' \<mapsto> max_tokens_arg alice_bot None),
          req_stop = [''Alice:'', ''BOT:'']\<rparr>])"
  by (simp add: get_reply_def example_prompts example_bots example_fields strip_hi strip_hello[simplified] Let_def
      get_completion_max_tokens example_params example_provider hello_provider_def
      update_conversation_def)

lemma example_single_reply:
  "get_single_reply (example_env hello_provider) alice_bot received ''Hi'' None None =
     (Inr (''  hello there!'' @ [NL, NL, NL]), human_bot,
      received @
        [\<lparr>req_prompt = ''Alice:Hi'' @ [NL] @ ''BOT:'',
          req_params = (completion_params human_bot)
             (''max_tokens'' \<mapsto> max_tokens_arg human_bot None),
          req_stop = [''Alice:'', ''BOT:'']\<rparr>])"
  by (simp add: get_single_reply_def example_prompts example_bots example_fields strip_hi
      get_completion_max_tokens example_params example_provider hello_provider_def)

lemma example_update:
  "update_conversation (example_env p) alice_bot ''hi'' (Some ''hello there!'') =
     (Inr (),
      alice_bot\<lparr>conversation_attr :=
                  Some (rendered_start ''BOT'' ''a person named Alice'' @ ''Alice:hi'' @ [NL] @ ''BOT:hello there!'' @ [NL]),
                messages := [''hi''], replies := [''hello there!'']\<rparr>)"
  "send_message (example_env p) alice_bot ''hi'' =
     (Inr (),
      alice_bot\<lparr>conversation_attr :=
                  Some (rendered_start ''BOT'' ''a person named Alice'' @ ''Alice:hi'' @ [NL] @ ''BOT:'' @ [NL]),
                messages := [''hi'']\<rparr>)"
  by (simp_all add: send_message_def update_conversation_def example_prompts example_fields
      strip_hi strip_hello[simplified] Let_def)

section \<open>The claims\<close>

subsection \<open>C1: a failed completion call\<close>

text \<open>
  C1, as stated, fails: on an agent whose conversation is not active, \<open>get_reply\<close> with a
  message starts the conversation before it calls the provider, so after the provider
  has raised the transcript is the rendered start template and no longer the empty one.
\<close>

theorem get_reply_provider_failure_counterexample:
  "fst (get_reply (example_env failing_provider) fresh_bot [] (Some ''hi'') None)
    = Inl ProviderError \<and>
   conversation (fst (snd (get_reply (example_env failing_provider) fresh_bot [] (Some ''hi'') None)))
     \<noteq> conversation fresh_bot"
  by (simp add: example_failed_reply example_fields rendered_start_def)

text \<open>
  C1, amended: when the provider call made inside \<open>get_reply\<close> raises, the exception
  propagates, \<open>update_conversation\<close> is not invoked and both logs are as before. The agent
  as a whole is unchanged when the conversation was active or no (or an empty) message was
  given; when a message is given on an inactive conversation, the agent is the one that
  \<open>start_conversation()\<close> leaves, its transcript the rendered start template.
\<close>

theorem get_reply_provider_failure:
  assumes "get_reply ev s received msg mrl = (r, s', received')"
    and "received' \<noteq> received"
    and "Completion_create ev (last received') = Inl e"
  shows "r = Inl e \<and> messages s' = messages s \<and> replies s' = replies s \<and>
         (if is_conversation_active s \<or> \<not> truthy msg then s' = s
          else start_conversation ev s None = (Inr (), s'))"
proof -
  obtain q s1 where m: "(if truthy msg then make_chat_prompt ev s (py_str msg) None True
            else (Inr (conversation s), s)) = (q, s1)"
    by (cases "(if truthy msg then make_chat_prompt ev s (py_str msg) None True
            else (Inr (conversation s), s))")
  show ?thesis
  proof (cases q)
    case (Inl e0)
    with assms m show ?thesis by (simp add: get_reply_def)
  next
    case (Inr prompt)
    note q = this
    show ?thesis
    proof (cases "name ev s1")
      case (Inl e0)
      with assms m q show ?thesis by (simp add: get_reply_def Let_def)
    next
      case (Inr n)
      obtain c received1 where g: "get_completion ev s1 received (conversation s1 @ prompt)
          [or_str (username s1) ''HUMAN'' @ '':'', n @ '':'']
          [''max_tokens'' \<mapsto> max_tokens_arg s1 mrl] = (c, received1)"
        by (cases "get_completion ev s1 received (conversation s1 @ prompt)
          [or_str (username s1) ''HUMAN'' @ '':'', n @ '':'']
          [''max_tokens'' \<mapsto> max_tokens_arg s1 mrl]")
      have r1: "received' = received1"
        using assms(1) m q Inr g
        by (auto simp: get_reply_def Let_def split: sum.splits list.splits prod.splits)
      from get_completion_cases[OF g] assms(2) r1
      obtain req where req: "received1 = received @ [req]" "c = Completion_create ev req"
        by auto
      with assms(3) r1 have c: "c = Inl e" by simp
      with assms(1) m q Inr g have res: "r = Inl e" "s' = s1"
        by (auto simp: get_reply_def Let_def)
      have frame: "messages s1 = messages s \<and> replies s1 = replies s"
        using m by (auto split: if_splits dest: make_chat_prompt_frame)
      have st: "(if is_conversation_active s \<or> \<not> truthy msg then s1 = s
          else start_conversation ev s None = (Inr (), s1))"
      proof (cases "truthy msg")
        case False
        with m show ?thesis by simp
      next
        case True
        with m q have mk: "make_chat_prompt ev s (py_str msg) None True = (Inr prompt, s1)" by simp
        show ?thesis
        proof (cases "is_conversation_active s")
          case True
          with make_chat_prompt_continue[of s ev "py_str msg" None] mk show ?thesis by simp
        next
          case False
          with make_chat_prompt_start[of s True ev "py_str msg" None] mk
          have "snd (start_conversation ev s None) = s1" by simp
          moreover have "fst (start_conversation ev s None) = Inr ()"
            using mk False
            by (auto simp: make_chat_prompt_def Let_def split: sum.splits prod.splits)
          ultimately show ?thesis using False \<open>truthy msg\<close>
            by (cases "start_conversation ev s None") simp
        qed
      qed
      from res frame st show ?thesis by simp
    qed
  qed
qed

text \<open>
  The amended C1 at the fresh agent with a provider that raises.
\<close>

theorem get_reply_provider_failure_witness:
  "snd (snd (get_reply (example_env failing_provider) fresh_bot [] (Some ''hi'') None))
    \<noteq> [] \<and>
   Completion_create (example_env failing_provider)
       (last (snd (snd (get_reply (example_env failing_provider) fresh_bot [] (Some ''hi'') None))))
     = Inl ProviderError \<and>
   fst (get_reply (example_env failing_provider) fresh_bot [] (Some ''hi'') None)
     = Inl ProviderError \<and>
   messages (fst (snd (get_reply (example_env failing_provider) fresh_bot [] (Some ''hi'') None)))
     = messages fresh_bot \<and>
   replies (fst (snd (get_reply (example_env failing_provider) fresh_bot [] (Some ''hi'') None)))
     = replies fresh_bot \<and>
   start_conversation (example_env failing_provider) fresh_bot None
     = (Inr (),
        fst (snd (get_reply (example_env failing_provider) fresh_bot [] (Some ''hi'') None)))"
proof -
  let ?G = "get_reply (example_env failing_provider) fresh_bot [] (Some ''hi'') None"
  have h1: "?G = (fst ?G, fst (snd ?G), snd (snd ?G))" by simp
  have h2: "snd (snd ?G) \<noteq> []" by (simp add: example_failed_reply)
  have h3: "Completion_create (example_env failing_provider) (last (snd (snd ?G)))
    = Inl ProviderError"
    by (simp add: example_provider failing_provider_def)
  from get_reply_provider_failure[OF h1 h2 h3] h2 h3 show ?thesis
    by (simp add: example_fields)
qed

subsection \<open>C2: the prompt passed to the provider\<close>

text \<open>
  The prompt of the request that \<open>get_reply\<close> sends: with a message it is the transcript
  (as \<open>make_chat_prompt\<close> left it) followed by the rendered prefix; without one it is the
  transcript twice, since \<open>prompt\<close> is set to the transcript and then appended to it.
\<close>

lemma get_reply_prompt:
  assumes "get_reply ev s received msg mrl = (r, s', received')"
    and "received' \<noteq> received"
  shows "\<exists>req. received' = received @ [req] \<and>
           (if truthy msg
            then \<exists>p s1. make_chat_prompt ev s (py_str msg) None True = (Inr p, s1) \<and>
                   req_prompt req = conversation s1 @ p
            else req_prompt req = conversation s @ conversation s)"
proof -
  from get_reply_call[OF assms] obtain prompt s1 n req where
    m: "(if truthy msg then make_chat_prompt ev s (py_str msg) None True
            else (Inr (conversation s), s)) = (Inr prompt, s1)"
    and rq: "received' = received @ [req]" "req_prompt req = conversation s1 @ prompt"
    by blast
  show ?thesis
  proof (cases "truthy msg")
    case True
    with m rq show ?thesis by auto
  next
    case False
    with m rq show ?thesis by auto
  qed
qed

text \<open>
  C2 at an input where the code departs from it: \<open>fresh_bot\<close> after
  \<open>start_conversation("Alice")\<close>, then \<open>get_reply()\<close> without a message. The one request
  the provider receives has the transcript twice as its prompt, and the transcript is not
  empty, so the prompt is not the transcript.
\<close>

theorem get_reply_without_message_prompt:
  "start_conversation (example_env hello_provider) fresh_bot (Some ''Alice'')
    = (Inr (), alice_bot) \<and>
   map req_prompt (snd (snd (get_reply (example_env hello_provider) alice_bot [] None None)))
     = [conversation alice_bot @ conversation alice_bot] \<and>
   conversation alice_bot \<noteq> [] \<and>
   conversation alice_bot @ conversation alice_bot \<noteq> conversation alice_bot"
  by (simp add: example_bots example_requery example_fields rendered_start_def)

subsection \<open>C3: the transcript of an active conversation\<close>

text \<open>
  C3 at an input where the code departs from it: the agent as \<open>__init__\<close> leaves it, then
  \<open>send_message("hi")\<close>. \<open>update_conversation\<close> reads the empty transcript, then
  \<open>make_chat_prompt\<close> starts the conversation, and the assignment overwrites the start
  template just rendered: the conversation is active and its transcript is
  \<open>None:hi\<close>, newline, \<open>BOT:\<close>, newline, of which the rendered start template is no prefix.
\<close>

theorem send_message_on_fresh_agent:
  "init (example_env failing_provider) bot_args = Inr fresh_bot \<and>
   fst (send_message (example_env failing_provider) fresh_bot ''hi'') = Inr () \<and>
   is_conversation_active (snd (send_message (example_env failing_provider) fresh_bot ''hi'')) \<and>
   conversation (snd (send_message (example_env failing_provider) fresh_bot ''hi''))
     = ''None:hi'' @ [NL] @ ''BOT:'' @ [NL] \<and>
   start_conversation (example_env failing_provider) fresh_bot None = (Inr (), human_bot) \<and>
   \<not> prefix (conversation human_bot)
       (conversation (snd (send_message (example_env failing_provider) fresh_bot ''hi'')))"
  by (simp add: init_bot example_send example_bots example_fields rendered_start_def)
     (simp add: conversation_def)

subsection \<open>C4: the lazy start in \<open>make_chat_prompt\<close>\<close>

text \<open>
  C4, as stated, fails: \<open>make_chat_prompt\<close> with the human name \<open>Alice\<close> on an inactive
  conversation records \<open>HUMAN\<close>, not \<open>Alice\<close>, and renders the start template with
  \<open>a human\<close>, not with \<open>a person named Alice\<close>.
\<close>

theorem make_chat_prompt_lazy_start_counterexample:
  "\<not> is_conversation_active fresh_bot \<and>
   username (snd (make_chat_prompt (example_env failing_provider) fresh_bot ''Hi'' (Some ''Alice'') True))
     \<noteq> Some ''Alice'' \<and>
   conversation (snd (make_chat_prompt (example_env failing_provider) fresh_bot ''Hi'' (Some ''Alice'') True))
     \<noteq> rendered_start ''BOT'' ''a person named Alice''"
  by (simp add: example_prompts example_fields rendered_start_def)

text \<open>
  C4, amended: when the conversation is inactive or \<open>continue_conversation\<close> is false, a
  call of \<open>make_chat_prompt\<close> that returns has first performed \<open>start_conversation()\<close>
  without a human name: the started conversation records \<open>HUMAN\<close> and its transcript is
  the start template rendered with \<open>a human\<close>. The human name given to
  \<open>make_chat_prompt\<close> (or, without one, the name stored before the start) appears only in
  the returned prefix.
\<close>

theorem make_chat_prompt_lazy_start:
  assumes "\<not> is_conversation_active s \<or> \<not> continue_conversation"
    and "make_chat_prompt ev s msg human_name continue_conversation = (Inr prompt, s')"
  shows "start_conversation ev s None = (Inr (), s') \<and>
         username s' = Some ''HUMAN'' \<and> is_conversation_active s' \<and>
         (\<exists>n. name ev s = Inr n \<and>
            format_py (START_TEMPLATE s) [(''AGENT_NAME'', n), (''USERNAME'', ''a human'')]
              = Inr (conversation s') \<and>
            format_py (MSG_TEMPLATE s)
              [(''user_name'', py_str (or_else human_name (username s))),
               (''AGENT_NAME'', n), (''MSG'', strip msg)] = Inr prompt)"
proof -
  have st: "start_conversation ev s None = (Inr (), s')"
    using make_chat_prompt_started[OF assms(2) assms(1)] .
  from start_conversation_success[OF st] obtain n rendered where
    n: "name ev s = Inr n"
    and f: "format_py (START_TEMPLATE s) [(''AGENT_NAME'', n), (''USERNAME'', ''a human'')] = Inr rendered"
    and s': "s' = s\<lparr>conversation_attr := Some rendered, is_conversation_active := True,
              username := Some ''HUMAN''\<rparr>"
    by auto
  from make_chat_prompt_success[OF assms(2)] obtain n' where
    n': "name ev s' = Inr n'"
    and p: "format_py (MSG_TEMPLATE s')
          [(''user_name'', py_str (or_else human_name (username s))), (''AGENT_NAME'', n'),
           (''MSG'', strip msg)] = Inr prompt"
    by blast
  have "name ev s' = name ev s" using s' by (intro name_cong) simp_all
  with n n' have "n' = n" by simp
  with p s' have "format_py (MSG_TEMPLATE s)
          [(''user_name'', py_str (or_else human_name (username s))), (''AGENT_NAME'', n),
           (''MSG'', strip msg)] = Inr prompt" by simp
  with st n f s' show ?thesis by (simp add: conversation_def)
qed

text \<open>
  The amended C4 at the fresh agent and the human name \<open>Alice\<close>.
\<close>

theorem make_chat_prompt_lazy_start_witness:
  "\<not> is_conversation_active fresh_bot \<and>
   make_chat_prompt (example_env failing_provider) fresh_bot ''Hi'' (Some ''Alice'') True
     = (Inr (''Alice:Hi'' @ [NL] @ ''BOT:''), human_bot) \<and>
   start_conversation (example_env failing_provider) fresh_bot None = (Inr (), human_bot) \<and>
   username human_bot = Some ''HUMAN'' \<and>
   is_conversation_active human_bot"
proof -
  have h1: "\<not> is_conversation_active fresh_bot \<or> \<not> True"
    by (simp add: example_fields)
  have h2: "make_chat_prompt (example_env failing_provider) fresh_bot ''Hi'' (Some ''Alice'') True
     = (Inr (''Alice:Hi'' @ [NL] @ ''BOT:''), human_bot)"
    by (simp add: example_prompts strip_hi)
  from make_chat_prompt_lazy_start[OF h1 h2] h2 show ?thesis
    by (simp add: example_fields)
qed

subsection \<open>C5: what \<open>get_single_reply\<close> leaves\<close>

text \<open>
  C5, as stated, fails: on the conversation started for \<open>Alice\<close>, \<open>get_single_reply\<close>
  returns the provider's text and leaves a different transcript.
\<close>

theorem get_single_reply_effect_counterexample:
  "is_conversation_active alice_bot \<and>
   fst (get_single_reply (example_env hello_provider) alice_bot [] ''Hi'' None None)
     = Inr (''  hello there!'' @ [NL, NL, NL]) \<and>
   conversation (fst (snd (get_single_reply (example_env hello_provider) alice_bot [] ''Hi'' None None)))
     \<noteq> conversation alice_bot"
  by (simp add: example_single_reply example_fields rendered_start_def)

text \<open>
  C5, amended: \<open>get_single_reply\<close> leaves the message log and the reply log unchanged and
  appends nothing to the transcript, but it restarts the conversation: whatever the
  outcome, the agent afterwards is the one \<open>start_conversation()\<close> leaves. When it returns
  a reply, the conversation has been started anew (transcript the rendered start template,
  human name \<open>HUMAN\<close>), the provider has received one request, and the reply is the text
  of the first choice of its answer, unchanged.
\<close>

theorem get_single_reply_effect:
  assumes "get_single_reply ev s received msg mrl human_name = (r, s', received')"
  shows "messages s' = messages s \<and> replies s' = replies s \<and>
         s' = snd (start_conversation ev s None) \<and>
         (\<forall>reply. r = Inr reply \<longrightarrow>
            start_conversation ev s None = (Inr (), s') \<and>
            (\<exists>req rest. received' = received @ [req] \<and>
               Completion_create ev req = Inr (reply # rest)))"
proof -
  obtain q s1 where m: "make_chat_prompt ev s msg None False = (q, s1)"
    by (cases "make_chat_prompt ev s msg None False")
  have s1: "s1 = snd (start_conversation ev s None)"
    using make_chat_prompt_start[of s False ev msg None] m by simp
  have s': "s' = s1"
    using assms m
    by (auto simp: get_single_reply_def Let_def split: sum.splits option.splits list.splits prod.splits)
  have frame: "messages s1 = messages s \<and> replies s1 = replies s"
    using make_chat_prompt_frame[OF m] by simp
  have ok: "start_conversation ev s None = (Inr (), s') \<and>
            (\<exists>req rest. received' = received @ [req] \<and>
               Completion_create ev req = Inr (reply # rest))" if r: "r = Inr reply" for reply
  proof -
    from assms m r obtain p where q: "q = Inr p"
      by (cases q) (auto simp: get_single_reply_def Let_def)
    with m have mk: "make_chat_prompt ev s msg None False = (Inr p, s1)" by simp
    have st: "start_conversation ev s None = (Inr (), s1)"
      using make_chat_prompt_started[OF mk] by simp
    from assms mk r obtain u n c received1 where
      g: "get_completion ev s1 received p [u @ '':'', n @ '':'']
            [''max_tokens'' \<mapsto> max_tokens_arg s1 mrl] = (Inr c, received1)"
      and c: "c = reply # tl c" "received' = received1"
      by (auto simp: get_single_reply_def Let_def
          split: sum.splits option.splits list.splits prod.splits)
    from get_completion_cases[OF g] obtain req where
      "received1 = received @ [req]" "Inr c = Completion_create ev req"
      by auto
    with c st s' show ?thesis by metis
  qed
  from s' s1 frame ok show ?thesis by simp
qed

text \<open>
  The amended C5 on the conversation started for \<open>Alice\<close>.
\<close>

theorem get_single_reply_effect_witness:
  "fst (get_single_reply (example_env hello_provider) alice_bot [] ''Hi'' None None)
     = Inr (''  hello there!'' @ [NL, NL, NL]) \<and>
   messages (fst (snd (get_single_reply (example_env hello_provider) alice_bot [] ''Hi'' None None)))
     = messages alice_bot \<and>
   replies (fst (snd (get_single_reply (example_env hello_provider) alice_bot [] ''Hi'' None None)))
     = replies alice_bot \<and>
   start_conversation (example_env hello_provider) alice_bot None
     = (Inr (),
        fst (snd (get_single_reply (example_env hello_provider) alice_bot [] ''Hi'' None None))) \<and>
   length (snd (snd (get_single_reply (example_env hello_provider) alice_bot [] ''Hi'' None None))) = 1"
proof -
  let ?R = "get_single_reply (example_env hello_provider) alice_bot [] ''Hi'' None None"
  have h1: "?R = (fst ?R, fst (snd ?R), snd (snd ?R))" by simp
  have h2: "fst ?R = Inr (''  hello there!'' @ [NL, NL, NL])"
    by (simp add: example_single_reply)
  from get_single_reply_effect[OF h1] h2
  have "messages (fst (snd ?R)) = messages alice_bot \<and>
        replies (fst (snd ?R)) = replies alice_bot \<and>
        start_conversation (example_env hello_provider) alice_bot None = (Inr (), fst (snd ?R)) \<and>
        (\<exists>req. snd (snd ?R) = [] @ [req])"
    by blast
  with h2 show ?thesis by auto
qed

subsection \<open>C6: the transcript only grows\<close>

text \<open>
  With the class templates, and a name that resolves, \<open>update_conversation\<close> always returns.
\<close>

lemma update_conversation_returns:
  assumes "START_TEMPLATE s = class_START_TEMPLATE @ [NL]"
    and "MSG_TEMPLATE s = class_MSG_TEMPLATE"
    and "name ev s = Inr n"
  shows "fst (update_conversation ev s msg reply) = Inr ()"
proof (cases "is_conversation_active s")
  case True
  from make_chat_prompt_class[OF assms(2,3) True] show ?thesis
    by (simp add: update_conversation_def Let_def)
next
  case False
  let ?s1 = "s\<lparr>conversation_attr := Some (rendered_start n ''a human''),
               is_conversation_active := True, username := Some ''HUMAN''\<rparr>"
  have st: "start_conversation ev s None = (Inr (), ?s1)"
    using start_conversation_class[OF assms(1,3), of None] by simp
  have "name ev ?s1 = name ev s" by (intro name_cong) simp_all
  with assms(3) have n1: "name ev ?s1 = Inr n" by simp
  have "fst (make_chat_prompt ev s msg None True)
          = Inr (py_str (or_else None (username s)) @ '':'' @ strip msg @ [NL] @ n @ '':'')"
    using False st n1 assms(2) by (simp add: make_chat_prompt_def format_msg)
  then show ?thesis
    by (cases "make_chat_prompt ev s msg None True") (simp add: update_conversation_def Let_def)
qed

text \<open>
  C6: from every agent and for every message and reply, a call of \<open>update_conversation\<close>
  or of \<open>send_message\<close> that returns leaves a transcript of which the transcript before the
  call is a proper prefix. The agent before the call is arbitrary, so the statement holds
  between any two consecutive calls of a sequence.
\<close>

theorem transcript_append_only:
  "(update_conversation ev s msg reply = (Inr x, s') \<longrightarrow>
      strict_prefix (conversation s) (conversation s')) \<and>
   (send_message ev s msg = (Inr x, s'') \<longrightarrow>
      strict_prefix (conversation s) (conversation s''))"
proof -
  have step: "strict_prefix (conversation s) (conversation t)"
    if "update_conversation ev s msg rp = (Inr x, t)" for rp t
  proof -
    from update_conversation_success[OF that] obtain p s1 where
      "t = s1\<lparr>conversation_attr := Some (conversation s @ p @ strip (or_str rp []) @ [NL]),
               messages := messages s1 @ [msg],
               replies := (if or_str rp [] \<noteq> [] then replies s1 @ [or_str rp []] else replies s1)\<rparr>"
      by blast
    then have "conversation t = conversation s @ (p @ strip (or_str rp []) @ [NL])"
      by (simp add: conversation_def)
    then show ?thesis by (simp add: strict_prefix_def)
  qed
  show ?thesis using step by (auto simp: send_message_def)
qed

text \<open>
  C6 on the conversation started for \<open>Alice\<close>: both calls return.
\<close>

theorem transcript_append_only_witness:
  "fst (update_conversation (example_env hello_provider) alice_bot ''hi'' (Some ''hello there!''))
     = Inr () \<and>
   strict_prefix (conversation alice_bot)
     (conversation
        (snd (update_conversation (example_env hello_provider) alice_bot ''hi''
                (Some ''hello there!'')))) \<and>
   fst (send_message (example_env hello_provider) alice_bot ''hi'') = Inr () \<and>
   strict_prefix (conversation alice_bot)
     (conversation (snd (send_message (example_env hello_provider) alice_bot ''hi'')))"
proof -
  let ?U = "update_conversation (example_env hello_provider) alice_bot ''hi''
              (Some ''hello there!'')"
  let ?S = "send_message (example_env hello_provider) alice_bot ''hi''"
  have f1: "fst ?U = Inr ()" by (simp add: example_update)
  have f2: "fst ?S = Inr ()" by (simp add: example_update)
  have h1: "?U = (Inr (), snd ?U)" using f1 by (simp add: prod_eq_iff)
  have h2: "?S = (Inr (), snd ?S)" using f2 by (simp add: prod_eq_iff)
  from transcript_append_only[of "example_env hello_provider" alice_bot "''hi''"
      "Some ''hello there!''" "()" "snd ?U" "snd ?S"] h1 h2 f1 f2
  show ?thesis by blast
qed

subsection \<open>C7: the stop sequences\<close>

text \<open>
  C7: a call of \<open>get_reply\<close> that reaches the provider sends it exactly one request, whose
  stop sequences are the recorded human name followed by a colon and the agent's display
  name followed by a colon. The recorded human name is \<open>username\<close> as it stands when the
  request is built, \<open>HUMAN\<close> when there is none: the stored name when the conversation
  was active or no message was given, and \<open>HUMAN\<close> when the call itself started the
  conversation.
\<close>

theorem get_reply_stop_sequences:
  assumes "get_reply ev s received msg mrl = (r, s', received')"
    and "received' \<noteq> received"
  shows "\<exists>a req. name ev s = Inr a \<and> received' = received @ [req] \<and>
           req_stop req =
             [(if is_conversation_active s \<or> \<not> truthy msg then or_str (username s) ''HUMAN''
               else ''HUMAN'') @ '':'',
              a @ '':'']"
proof -
  from get_reply_call[OF assms] obtain prompt s1 n req where
    m: "(if truthy msg then make_chat_prompt ev s (py_str msg) None True
            else (Inr (conversation s), s)) = (Inr prompt, s1)"
    and n: "name ev s1 = Inr n"
    and rq: "received' = received @ [req]"
      "req_stop req = [or_str (username s1) ''HUMAN'' @ '':'', n @ '':'']"
    by blast
  have nm: "name ev s1 = name ev s"
    using m by (auto split: if_splits dest: make_chat_prompt_frame intro: name_cong)
  have u: "or_str (username s1) ''HUMAN'' =
      (if is_conversation_active s \<or> \<not> truthy msg then or_str (username s) ''HUMAN'' else ''HUMAN'')"
  proof (cases "truthy msg")
    case False
    with m show ?thesis by simp
  next
    case True
    with m have mk: "make_chat_prompt ev s (py_str msg) None True = (Inr prompt, s1)" by simp
    show ?thesis
    proof (cases "is_conversation_active s")
      case True
      with make_chat_prompt_kept[OF mk] show ?thesis by simp
    next
      case False
      with make_chat_prompt_started[OF mk] have "start_conversation ev s None = (Inr (), s1)" by simp
      from start_conversation_success[OF this] False \<open>truthy msg\<close> show ?thesis by auto
    qed
  qed
  from n nm rq u show ?thesis by auto
qed

text \<open>
  C7 for the agent name \<open>BOT\<close> and the human name \<open>Alice\<close>.
\<close>

theorem get_reply_stop_sequences_witness:
  "snd (snd (get_reply (example_env hello_provider) alice_bot [] (Some ''hi'') None))
    \<noteq> [] \<and>
   username alice_bot = Some ''Alice'' \<and>
   name (example_env hello_provider) alice_bot = Inr ''BOT'' \<and>
   map req_stop (snd (snd (get_reply (example_env hello_provider) alice_bot [] (Some ''hi'') None)))
     = [[''Alice:'', ''BOT:'']]"
proof -
  let ?G = "get_reply (example_env hello_provider) alice_bot [] (Some ''hi'') None"
  have h1: "?G = (fst ?G, fst (snd ?G), snd (snd ?G))" by simp
  have h2: "snd (snd ?G) \<noteq> []" by (simp add: example_alice_reply)
  from get_reply_stop_sequences[OF h1 h2] h2 show ?thesis
    by (auto simp: example_fields example_bots)
qed

subsection \<open>C8: the message log and the reply log\<close>

text \<open>
  C8, as stated, fails: when the provider's text is white space only, \<open>get_reply("hi")\<close>
  returns the empty reply, the message log has grown by the message and the reply log has
  not grown.
\<close>

theorem logs_lockstep_counterexample:
  "fst (get_reply (example_env blank_provider) fresh_bot [] (Some ''hi'') None) = Inr [] \<and>
   messages (fst (snd (get_reply (example_env blank_provider) fresh_bot [] (Some ''hi'') None)))
     = messages fresh_bot @ [''hi''] \<and>
   replies (fst (snd (get_reply (example_env blank_provider) fresh_bot [] (Some ''hi'') None)))
     = replies fresh_bot"
  by (simp add: example_blank_reply example_fields)

text \<open>
  C8, amended: a call of \<open>get_reply\<close> that returns appends the message (the empty string
  when none was given) to the message log, and appends the reply to the reply log when
  the reply is not the empty string; an empty reply leaves the reply log as it was. A call
  of \<open>send_message\<close> that returns appends the message to the message log and leaves the
  reply log unchanged.
\<close>

theorem logs_lockstep:
  "(get_reply ev s received msg mrl = (Inr reply, s', received') \<longrightarrow>
      messages s' = messages s @ [if truthy msg then py_str msg else []] \<and>
      replies s' = (if reply \<noteq> [] then replies s @ [reply] else replies s)) \<and>
   (send_message ev s m = (Inr x, s'') \<longrightarrow>
      messages s'' = messages s @ [m] \<and> replies s'' = replies s)"
proof (intro conjI impI)
  assume g: "get_reply ev s received msg mrl = (Inr reply, s', received')"
  from get_reply_call[OF g get_reply_returns_after_call[OF g]]
  obtain prompt s1 n req where
    m: "(if truthy msg then make_chat_prompt ev s (py_str msg) None True
            else (Inr (conversation s), s)) = (Inr prompt, s1)"
    and c: "(case Completion_create ev req of
              Inl e \<Rightarrow> Inr reply = Inl e \<and> s' = s1
            | Inr [] \<Rightarrow> Inr reply = Inl IndexError \<and> s' = s1
            | Inr (text # _) \<Rightarrow>
                (Inr reply, s') =
                (case update_conversation ev s1 (if truthy msg then py_str msg else [])
                        (Some (sub_trailing_newlines (strip text))) of
                   (Inl e, s2) \<Rightarrow> (Inl e, s2)
                 | (Inr _, s2) \<Rightarrow> (Inr (sub_trailing_newlines (strip text)), s2)))"
    by blast
  from c obtain x where up: "update_conversation ev s1 (if truthy msg then py_str msg else [])
       (Some reply) = (Inr x, s')"
    by (auto split: sum.splits list.splits prod.splits)
  from update_conversation_success[OF up] obtain p s2 where
    mk: "make_chat_prompt ev s1 (if truthy msg then py_str msg else []) None True = (Inr p, s2)"
    and s': "s' = s2\<lparr>conversation_attr := Some (conversation s1 @ p @ strip (or_str (Some reply) []) @ [NL]),
               messages := messages s2 @ [if truthy msg then py_str msg else []],
               replies := (if or_str (Some reply) [] \<noteq> [] then replies s2 @ [or_str (Some reply) []] else replies s2)\<rparr>"
    by blast
  have f1: "messages s1 = messages s \<and> replies s1 = replies s"
    using m by (auto split: if_splits dest: make_chat_prompt_frame)
  have f2: "messages s2 = messages s1 \<and> replies s2 = replies s1"
    using make_chat_prompt_frame[OF mk] by simp
  from s' f1 f2 show "messages s' = messages s @ [if truthy msg then py_str msg else []]" by simp
  from s' f1 f2 show "replies s' = (if reply \<noteq> [] then replies s @ [reply] else replies s)" by simp
next
  assume "send_message ev s m = (Inr x, s'')"
  then have up: "update_conversation ev s m None = (Inr x, s'')" by (simp add: send_message_def)
  from update_conversation_success[OF up] obtain p s1 where
    mk: "make_chat_prompt ev s m None True = (Inr p, s1)"
    and s': "s'' = s1\<lparr>conversation_attr := Some (conversation s @ p @ strip (or_str None []) @ [NL]),
               messages := messages s1 @ [m],
               replies := (if or_str None [] \<noteq> [] then replies s1 @ [or_str None []] else replies s1)\<rparr>"
    by blast
  from make_chat_prompt_frame[OF mk] s'
  show "messages s'' = messages s @ [m]" by simp
  from make_chat_prompt_frame[OF mk] s'
  show "replies s'' = replies s" by simp
qed

text \<open>
  C8 on the fresh agent: \<open>get_reply("hi")\<close> with a provider answering \<open>hello there!\<close>,
  and \<open>send_message("hi")\<close>.
\<close>

theorem logs_lockstep_witness:
  "fst (get_reply (example_env hello_provider) fresh_bot [] (Some ''hi'') None)
    = Inr ''hello there!'' \<and>
   messages (fst (snd (get_reply (example_env hello_provider) fresh_bot [] (Some ''hi'') None)))
     = [''hi''] \<and>
   replies (fst (snd (get_reply (example_env hello_provider) fresh_bot [] (Some ''hi'') None)))
     = [''hello there!''] \<and>
   fst (send_message (example_env hello_provider) fresh_bot ''hi'') = Inr () \<and>
   messages (snd (send_message (example_env hello_provider) fresh_bot ''hi'')) = [''hi''] \<and>
   replies (snd (send_message (example_env hello_provider) fresh_bot ''hi'')) = []"
proof -
  let ?G = "get_reply (example_env hello_provider) fresh_bot [] (Some ''hi'') None"
  let ?S = "send_message (example_env hello_provider) fresh_bot ''hi''"
  have f1: "fst ?G = Inr ''hello there!''"
    by (simp add: example_reply)
  have f2: "fst ?S = Inr ()"
    by (simp add: example_send)
  have h1: "?G = (Inr ''hello there!'', fst (snd ?G), snd (snd ?G))"
    using f1 by (simp add: prod_eq_iff)
  have h2: "?S = (Inr (), snd ?S)"
    using f2 by (simp add: prod_eq_iff)
  from logs_lockstep[of "(example_env hello_provider)" fresh_bot "[]" "Some ''hi''" None "''hello there!''"
      "fst (snd ?G)" "snd (snd ?G)" "''hi''" "()" "snd ?S"] h1 h2
  have "messages (fst (snd ?G)) = messages fresh_bot @ [''hi''] \<and>
        replies (fst (snd ?G)) = replies fresh_bot @ [''hello there!''] \<and>
        messages (snd ?S) = messages fresh_bot @ [''hi''] \<and>
        replies (snd ?S) = replies fresh_bot"
    by simp
  with f1 f2 show ?thesis by (simp add: example_fields)
qed

subsection \<open>C9: \<open>add_to_conversation\<close>\<close>

text \<open>
  C9: for every agent and every string, \<open>add_to_conversation\<close> raises \<open>AttributeError\<close>
  and leaves the agent, and so the transcript, unchanged; it never returns normally.
\<close>

theorem add_to_conversation_raises:
  "add_to_conversation s string = (Inl AttributeError, s) \<and>
   conversation (snd (add_to_conversation s string)) = conversation s \<and>
   fst (add_to_conversation s string) \<noteq> Inr ()"
  by (simp add: add_to_conversation_def)

subsection \<open>C10: \<open>get_single_reply\<close> without a human name\<close>

text \<open>
  C10: when no human name is stored and none (or an empty one) is given, a call of
  \<open>get_single_reply\<close> whose prompt could be built raises \<open>TypeError\<close> without calling
  the provider, and the agent it leaves is the one \<open>start_conversation()\<close> leaves: the
  transcript has been replaced by the start template rendered with \<open>a human\<close>.
\<close>

theorem get_single_reply_without_user_name:
  assumes "username s = None"
    and "\<not> truthy user_name"
    and "make_chat_prompt ev s msg None False = (Inr prompt, s1)"
  shows "get_single_reply ev s received msg mrl user_name = (Inl TypeError, s1, received) \<and>
         start_conversation ev s None = (Inr (), s1) \<and>
         (\<exists>n. name ev s = Inr n \<and>
            format_py (START_TEMPLATE s) [(''AGENT_NAME'', n), (''USERNAME'', ''a human'')]
              = Inr (conversation s1))"
proof -
  have u: "or_else user_name (username s) = None"
    using assms(1,2) by (cases user_name) auto
  have g: "get_single_reply ev s received msg mrl user_name = (Inl TypeError, s1, received)"
    using assms(3) u by (simp add: get_single_reply_def Let_def)
  have st: "start_conversation ev s None = (Inr (), s1)"
    using make_chat_prompt_started[OF assms(3)] by simp
  from start_conversation_success[OF st] have
    "\<exists>n. name ev s = Inr n \<and>
       format_py (START_TEMPLATE s) [(''AGENT_NAME'', n), (''USERNAME'', ''a human'')]
         = Inr (conversation s1)"
    by (auto simp: conversation_def)
  with g st show ?thesis by simp
qed

text \<open>
  C10 on the fresh agent.
\<close>

theorem get_single_reply_without_user_name_witness:
  "username fresh_bot = None \<and>
   make_chat_prompt (example_env failing_provider) fresh_bot ''Hi'' None False
     = (Inr (''None:Hi'' @ [NL] @ ''BOT:''), human_bot) \<and>
   get_single_reply (example_env failing_provider) fresh_bot [] ''Hi'' None None
     = (Inl TypeError, human_bot, []) \<and>
   conversation human_bot = rendered_start ''BOT'' ''a human''"
proof -
  have h1: "username fresh_bot = None" by (simp add: example_fields)
  have h2: "\<not> truthy None" by simp
  have h3: "make_chat_prompt (example_env failing_provider) fresh_bot ''Hi'' None False
     = (Inr (''None:Hi'' @ [NL] @ ''BOT:''), human_bot)"
    by (simp add: example_prompts strip_hi)
  from get_single_reply_without_user_name[OF h1 h2 h3, of "[]" None] h1 h3 show ?thesis
    by (simp add: example_fields)
qed

end
